theory Spec2Isabelle
  imports Main
begin

section \<open>Values, errors and promises of the MAPI client\<close>

text \<open>
  The development embeds the request pipeline of \<^verbatim>\<open>lib/mapi.js\<close> (class
  \<^verbatim>\<open>Criteo_MAPI_Client\<close>, version 0.9.3). The older copy of the class (version 0.8.1)
  has the same text for every function embedded here except \<^verbatim>\<open>executeRequest\<close>, which
  passes path and data as two arguments instead of one object.

  JavaScript values that flow through the pipeline: results of \<^verbatim>\<open>JSON.parse\<close>, the
  boolean \<^verbatim>\<open>true\<close>, response texts, and \<^verbatim>\<open>undefined\<close>. Numbers are kept as integers;
  the pipeline only ever asks whether a value is truthy. Strings are lists of code units
  below 256.
\<close>

datatype jsval =
    VUndefined
  | VNull
  | VBool bool
  | VNum int
  | VStr string
  | VArr "jsval list"
  | VObj "(string \<times> jsval) list"

text \<open>JavaScript truthiness, as used by \<^verbatim>\<open>this.token && ...\<close>.\<close>

fun truthy :: "jsval \<Rightarrow> bool" where
  "truthy VUndefined = False"
| "truthy VNull = False"
| "truthy (VBool b) = b"
| "truthy (VNum n) = (n \<noteq> 0)"
| "truthy (VStr s) = (s \<noteq> [])"
| "truthy (VArr xs) = True"
| "truthy (VObj kvs) = True"

text \<open>
  Property read \<^verbatim>\<open>v.access_token\<close>: a \<^verbatim>\<open>TypeError\<close> on \<^verbatim>\<open>null\<close> and
  \<^verbatim>\<open>undefined\<close> (the result \<open>None\<close>), the own property of an object, and
  \<^verbatim>\<open>undefined\<close> for a missing property and for every other kind of value.
\<close>

fun get_property :: "jsval \<Rightarrow> string \<Rightarrow> jsval option" where
  "get_property VUndefined k = None"
| "get_property VNull k = None"
| "get_property (VObj kvs) k = (case map_of kvs k of Some v \<Rightarrow> Some v | None \<Rightarrow> Some VUndefined)"
| "get_property v k = Some VUndefined"

text \<open>An error object: its name and its message. \<^verbatim>\<open>new Error(m)\<close> is \<open>Error m\<close>.\<close>

datatype jserror = JsError (err_name: string) (err_message: string)

definition Error :: "string \<Rightarrow> jserror" where
  "Error m = JsError ''Error'' m"

text \<open>\<^verbatim>\<open>Error.prototype.toString\<close>.\<close>

fun toString :: "jserror \<Rightarrow> string" where
  "toString (JsError n m) = (if m = [] then n else if n = [] then m else n @ '': '' @ m)"

text \<open>
  The state of a promise: resolved with a value, rejected with an error, or never
  settled. A promise settles once: later calls of its \<^verbatim>\<open>resolve\<close> or \<^verbatim>\<open>reject\<close>
  are ignored.
\<close>

datatype outcome = Resolved jsval | Rejected jserror | Pending

fun settle :: "outcome \<Rightarrow> outcome \<Rightarrow> outcome" where
  "settle Pending new = new"
| "settle old new = old"

section \<open>Strings\<close>

text \<open>\<^verbatim>\<open>s.indexOf(pat) > -1\<close>: the pattern occurs somewhere in the string.\<close>

fun starts_with :: "string \<Rightarrow> string \<Rightarrow> bool" where
  "starts_with [] s = True"
| "starts_with (p # ps) [] = False"
| "starts_with (p # ps) (c # cs) = (p = c \<and> starts_with ps cs)"

fun contains_text :: "string \<Rightarrow> string \<Rightarrow> bool" where
  "contains_text pat [] = (pat = [])"
| "contains_text pat (c # cs) = (starts_with pat (c # cs) \<or> contains_text pat cs)"

text \<open>\<^verbatim>\<open>Number.prototype.toString\<close> on a non-negative integer: its decimal digits.\<close>

definition digit_char :: "nat \<Rightarrow> char" where
  "digit_char d = ''0123456789'' ! d"

fun number_toString :: "nat \<Rightarrow> string" where
  "number_toString n =
     (if n < 10 then [digit_char n] else number_toString (n div 10) @ [digit_char (n mod 10)])"

declare number_toString.simps [simp del]

definition is_digit :: "char \<Rightarrow> bool" where
  "is_digit c = (48 \<le> (of_char c :: nat) \<and> (of_char c :: nat) \<le> 57)"

text \<open>
  \<^verbatim>\<open>s.match(/20[0-9]/) !== null\<close>: the regular expression is not anchored, so it
  matches when the characters 2, 0 and a digit stand next to each other anywhere in the
  string.
\<close>

fun match_20x :: "string \<Rightarrow> bool" where
  "match_20x (a # b # c # rest) =
     ((a = CHR ''2'' \<and> b = CHR ''0'' \<and> is_digit c) \<or> match_20x (b # c # rest))"
| "match_20x s = False"

text \<open>
  \<^verbatim>\<open>String.prototype.trim\<close>: white space and line terminators are removed at both
  ends. Among the code units below 256 these are tab, line feed, vertical tab, form feed,
  carriage return, space and the no-break space.
\<close>

definition is_space :: "char \<Rightarrow> bool" where
  "is_space c = (of_char c \<in> {9, 10, 11, 12, 13, 32, 160 :: nat})"

definition trim :: "string \<Rightarrow> string" where
  "trim s = rev (dropWhile is_space (rev (dropWhile is_space s)))"

section \<open>The client, its collaborators and the request descriptor\<close>

datatype http_method = GET | POST | PUT | PATCH | DELETE

text \<open>
  What \<^verbatim>\<open>request\<close> hands to the transport: the method, the base path followed by the
  descriptor's path, body and query, and the token placed in the
  \<^verbatim>\<open>Authorization\<close> header at the time of the call.
\<close>

record transport_request =
  req_method :: http_method
  req_path :: string
  req_body :: "string option"
  req_query :: jsval
  req_token :: jsval

text \<open>
  The transport (the methods \<^verbatim>\<open>apiGet\<close>, \<^verbatim>\<open>apiPost\<close>, ... of the API client, which
  end in \<^verbatim>\<open>_request\<close> of the HTTP client) completes an exchange with a status code
  and a body, or fails with an error.
\<close>

datatype transport_result = Response nat string | Failure jserror

text \<open>The callback protocol: the arguments of one call of the user's callback.\<close>

datatype callback_call = Callback (cb_error: "jserror option") (cb_result: jsval)

text \<open>
  The collaborators and the immutable configuration of one client:
  the transport, which may answer depending on the exchanges made before; \<^verbatim>\<open>JSON.parse\<close>,
  which returns a value or throws; \<^verbatim>\<open>fs.writeFile\<close>, which may fail with an error text
  for a path; \<^verbatim>\<open>encodeURIComponent\<close>; the client id and secret and the base path.
\<close>

record env =
  transport :: "transport_request list \<Rightarrow> transport_request \<Rightarrow> transport_result"
  json_parse :: "string \<Rightarrow> jserror + jsval"
  write_error :: "string \<Rightarrow> string option"
  encodeURIComponent :: "string \<Rightarrow> string"
  client_id :: string
  client_secret :: string
  endpoint :: string

text \<open>
  The mutable world of one client: \<^verbatim>\<open>this.token\<close>, the files on disk, and two
  logs of what has been observed from outside: the exchanges made with the transport and
  the calls made to user callbacks, each in order.
\<close>

record client =
  token :: jsval
  files :: "string \<rightharpoonup> string"
  calls :: "transport_request list"
  delivered :: "callback_call list"

text \<open>
  The response handlers that the endpoint methods bind: \<^verbatim>\<open>processAuth\<close>,
  \<^verbatim>\<open>processJSON\<close>, \<^verbatim>\<open>processFile\<close> with its file path and \<^verbatim>\<open>processResponse\<close>.
\<close>

datatype handler = ProcessAuth | ProcessJSON | ProcessFile string | ProcessResponse

text \<open>
  The request descriptor \<^verbatim>\<open>r\<close>; \<open>method_name\<close> is \<^verbatim>\<open>r.method\<close>, the name of the
  client method that \<^verbatim>\<open>executeRequest\<close> calls. A user callback is a function that
  returns, or throws an error (\<open>Some\<close>); \<^verbatim>\<open>r.retry\<close> and \<^verbatim>\<open>r.callbackExecuted\<close>
  are absent, hence falsy, when an endpoint method creates the descriptor.
\<close>

record descriptor =
  method_name :: http_method
  path :: string
  query :: jsval
  body :: "string option"
  handler :: handler
  callback :: "(callback_call \<Rightarrow> jserror option) option"
  retry :: bool
  callbackExecuted :: bool

section \<open>The response processor\<close>

text \<open>
  A parser receives the trimmed body and the promise's \<^verbatim>\<open>resolve\<close> and \<^verbatim>\<open>reject\<close>.
  It is modelled by the settlement it asks for and the world it leaves.
\<close>

type_synonym parser = "string \<Rightarrow> client \<Rightarrow> outcome \<times> client"

definition parseJSON :: "env \<Rightarrow> parser" where
  "parseJSON e body_text st =
     (if body_text \<noteq> [] then
        (case json_parse e body_text of
           Inr v \<Rightarrow> (Resolved v, st)
         | Inl ex \<Rightarrow> (Rejected (Error (''Error Parsing JSON Response: '' @ toString ex)), st))
      else (Resolved (VBool True), st))"

definition parseResponse :: parser where
  "parseResponse body_text st =
     (if body_text \<noteq> [] then (Resolved (VStr body_text), st)
      else (Resolved (VBool True), st))"

definition saveToFile :: "env \<Rightarrow> string \<Rightarrow> parser" where
  "saveToFile e filepath body_text st =
     (case write_error e filepath of
        Some err \<Rightarrow> (Rejected (Error (''Error Saving Response to File. '' @ err)), st)
      | None \<Rightarrow> (Resolved (VStr (''Results saved to '' @ filepath @ ''.'')),
                 st\<lparr>files := (files st)(filepath \<mapsto> body_text)\<rparr>))"

text \<open>
  \<^verbatim>\<open>process\<close>: a status whose decimal form does not match rejects the promise, and the
  function goes on: the parser is called on the trimmed body in every case. The
  \<^verbatim>\<open>catch\<close> block of the source is not reached for a response that has a numeric
  status and a string body, since both parsers catch their own exceptions.
\<close>

definition status_ok :: "nat \<Rightarrow> bool" where
  "status_ok status = match_20x (number_toString status)"

definition bad_response :: "nat \<Rightarrow> string \<Rightarrow> jserror" where
  "bad_response status body_text =
     Error (''Bad Response From API: Status Code '' @ number_toString status @ '' | '' @ body_text)"

definition process :: "nat \<Rightarrow> string \<Rightarrow> parser \<Rightarrow> client \<Rightarrow> outcome \<times> client" where
  "process status body_text parser st =
     (let p = (if \<not> status_ok status
               then settle Pending (Rejected (bad_response status body_text))
               else Pending);
          (asked, st') = parser (trim body_text) st
      in (settle p asked, st'))"

definition processJSON :: "env \<Rightarrow> nat \<Rightarrow> string \<Rightarrow> client \<Rightarrow> outcome \<times> client" where
  "processJSON e status body_text st = process status body_text (parseJSON e) st"

definition processFile :: "env \<Rightarrow> string \<Rightarrow> nat \<Rightarrow> string \<Rightarrow> client \<Rightarrow> outcome \<times> client" where
  "processFile e filepath status body_text st = process status body_text (saveToFile e filepath) st"

definition processResponse :: "nat \<Rightarrow> string \<Rightarrow> client \<Rightarrow> outcome \<times> client" where
  "processResponse status body_text st = process status body_text parseResponse st"

text \<open>
  \<^verbatim>\<open>processAuth\<close>: the body is parsed as it is, the status is not looked at, the
  \<^verbatim>\<open>access_token\<close> property becomes the token and the promise resolves with it. Only an
  exception (of \<^verbatim>\<open>JSON.parse\<close>, or of the property read on \<^verbatim>\<open>null\<close>) rejects.
\<close>

definition auth_error :: jserror where
  "auth_error = Error ''Error Retrieving Session Token from Authentication Response!''"

definition processAuth :: "env \<Rightarrow> nat \<Rightarrow> string \<Rightarrow> client \<Rightarrow> outcome \<times> client" where
  "processAuth e status body_text st =
     (case json_parse e body_text of
        Inl ex \<Rightarrow> (Rejected auth_error, st)
      | Inr response \<Rightarrow>
          (case get_property response ''access_token'' of
             None \<Rightarrow> (Rejected auth_error, st)
           | Some t \<Rightarrow> (Resolved t, st\<lparr>token := t\<rparr>)))"


section \<open>The request pipeline\<close>

text \<open>
  \<^verbatim>\<open>checkAuthentication\<close> returns a promise that resolves or rejects without a
  value and touches nothing: \<open>True\<close> stands for the resolved promise.
\<close>

definition checkAuthentication :: "descriptor \<Rightarrow> client \<Rightarrow> bool" where
  "checkAuthentication r st = ((truthy (token st) \<and> \<not> retry r) \<or> path r = ''/oauth2/token'')"

text \<open>
  \<^verbatim>\<open>toFormData\<close> joins \<^verbatim>\<open>key=value&\<close> for every property and drops the last
  character; \<open>auth_descriptor\<close> is the object literal that \<^verbatim>\<open>authenticate\<close> builds.
\<close>

definition toFormData :: "(string \<times> string) list \<Rightarrow> string" where
  "toFormData obj = butlast (concat (map (\<lambda>(k, v). k @ ''='' @ v @ ''&'') obj))"

definition auth_descriptor :: "env \<Rightarrow> (callback_call \<Rightarrow> jserror option) option \<Rightarrow> descriptor" where
  "auth_descriptor e cb =
     \<lparr>method_name = POST, path = ''/oauth2/token'', query = VUndefined,
      body = Some (toFormData
        [(''client_id'', encodeURIComponent e (client_id e)),
         (''client_secret'', encodeURIComponent e (client_secret e)),
         (''grant_type'', ''client_credentials'')]),
      handler = ProcessAuth, callback = cb, retry = False, callbackExecuted = False\<rparr>"

text \<open>
  \<^verbatim>\<open>executeRequest\<close>: one exchange with the transport, through \<^verbatim>\<open>this[r.method]\<close>
  and \<^verbatim>\<open>request\<close>, then the descriptor's handler on a completed exchange. A failure of
  the transport is passed on as it is.
\<close>

definition request :: "env \<Rightarrow> descriptor \<Rightarrow> client \<Rightarrow> transport_request" where
  "request e r st =
     \<lparr>req_method = method_name r, req_path = endpoint e @ path r, req_body = body r,
      req_query = query r, req_token = token st\<rparr>"

definition run_handler :: "env \<Rightarrow> handler \<Rightarrow> nat \<Rightarrow> string \<Rightarrow> client \<Rightarrow> outcome \<times> client" where
  "run_handler e h status body_text st =
     (case h of
        ProcessAuth \<Rightarrow> processAuth e status body_text st
      | ProcessJSON \<Rightarrow> processJSON e status body_text st
      | ProcessFile filepath \<Rightarrow> processFile e filepath status body_text st
      | ProcessResponse \<Rightarrow> processResponse status body_text st)"

definition executeRequest :: "env \<Rightarrow> descriptor \<Rightarrow> client \<Rightarrow> outcome \<times> client" where
  "executeRequest e r st =
     (let q = request e r st; st1 = st\<lparr>calls := calls st @ [q]\<rparr>
      in case transport e (calls st) q of
           Failure err \<Rightarrow> (Rejected err, st1)
         | Response status body_text \<Rightarrow> run_handler e (handler r) status body_text st1)"

text \<open>
  A call of the user's callback is logged; the callback returns or throws.
  \<^verbatim>\<open>resolveRequest\<close> and \<^verbatim>\<open>rejectRequest\<close> give what they do to the promise returned
  by \<^verbatim>\<open>mapiRequest\<close> (\<open>Pending\<close> when they leave it alone);
  \<^verbatim>\<open>resolveRequest\<close> gives in front the exception that escapes from it, if any: a
  callback that throws keeps \<^verbatim>\<open>resolve(res)\<close> from being reached. An exception that
  escapes from \<^verbatim>\<open>rejectRequest\<close> has no handler left in the chain.
\<close>

definition invoke :: "descriptor \<Rightarrow> callback_call \<Rightarrow> client \<Rightarrow> jserror option \<times> client" where
  "invoke r c st =
     (case callback r of None \<Rightarrow> None | Some cb \<Rightarrow> cb c, st\<lparr>delivered := delivered st @ [c]\<rparr>)"

definition resolveRequest :: "descriptor \<Rightarrow> jsval \<Rightarrow> client \<Rightarrow> jserror option \<times> outcome \<times> descriptor \<times> client" where
  "resolveRequest r res st =
     (if callback r \<noteq> None \<and> \<not> callbackExecuted r then
        (let r1 = r\<lparr>callbackExecuted := True\<rparr>;
             (thrown, st1) = invoke r1 (Callback None res) st
         in case thrown of
              Some ex \<Rightarrow> (Some ex, Pending, r1, st1)
            | None \<Rightarrow> (None, Resolved res, r1, st1))
      else (None, Resolved res, r, st))"

definition rejectRequest :: "descriptor \<Rightarrow> jserror \<Rightarrow> client \<Rightarrow> outcome \<times> descriptor \<times> client" where
  "rejectRequest r err st =
     (if callback r \<noteq> None \<and> \<not> callbackExecuted r then
        (let r1 = r\<lparr>callbackExecuted := True\<rparr>;
             (thrown, st1) = invoke r1 (Callback (Some err) VUndefined) st
         in (Pending, r1, st1))
      else (Rejected err, r, st))"

text \<open>
  The last two links of the chain in \<^verbatim>\<open>mapiRequest\<close>,
  \<^verbatim>\<open>.then(resolveRequest).catch(rejectRequest)\<close>, applied to the promise \<open>p\<close> that
  the links before produced. A promise that never settles runs neither.
\<close>

definition complete :: "descriptor \<Rightarrow> outcome \<Rightarrow> client \<Rightarrow> outcome \<times> descriptor \<times> client" where
  "complete r p st =
     (case p of
        Pending \<Rightarrow> (Pending, r, st)
      | Rejected err \<Rightarrow> rejectRequest r err st
      | Resolved res \<Rightarrow>
          (case resolveRequest r res st of
             (None, out, r1, st1) \<Rightarrow> (out, r1, st1)
           | (Some ex, out, r1, st1) \<Rightarrow>
               (let (out2, r2, st2) = rejectRequest r1 ex st1 in (settle out out2, r2, st2))))"

text \<open>
  \<^verbatim>\<open>mapiRequest\<close>, \<^verbatim>\<open>authenticate\<close> and \<^verbatim>\<open>decideWhetherToRequeue\<close> call each
  other. The chain is
  \<^verbatim>\<open>checkAuthentication(r).catch(authenticate).then(executeRequest).catch(decideWhetherToRequeue)\<close>
  followed by the two completion links: \<^verbatim>\<open>authenticate\<close> receives the rejection value
  \<^verbatim>\<open>undefined\<close> as its callback, a rejected authentication skips the execution
  and reaches \<^verbatim>\<open>decideWhetherToRequeue\<close>, and the promise that
  \<^verbatim>\<open>decideWhetherToRequeue\<close> resolves with the requeued request follows that request.
  The descriptor is one mutable object: each function returns it as it has become.
\<close>

function mapiRequest :: "env \<Rightarrow> descriptor \<Rightarrow> client \<Rightarrow> outcome \<times> descriptor \<times> client"
  and authenticate :: "env \<Rightarrow> (callback_call \<Rightarrow> jserror option) option \<Rightarrow> client \<Rightarrow> outcome \<times> client"
  and decideWhetherToRequeue :: "env \<Rightarrow> descriptor \<Rightarrow> jserror \<Rightarrow> client \<Rightarrow> outcome \<times> descriptor \<times> client"
where
  "mapiRequest e r st =
     (let (p1, st1) = (if checkAuthentication r st then (Resolved VUndefined, st)
                       else authenticate e None st);
          (p2, st2) = (case p1 of Resolved v \<Rightarrow> executeRequest e r st1 | other \<Rightarrow> (other, st1));
          (p3, r3, st3) = (case p2 of Rejected err \<Rightarrow> decideWhetherToRequeue e r err st2
                                    | other \<Rightarrow> (other, r, st2))
      in complete r3 p3 st3)"
| "authenticate e cb st =
     (let (p, r1, st1) = mapiRequest e (auth_descriptor e cb) st in (p, st1))"
| "decideWhetherToRequeue e r err st =
     (if contains_text ''401'' (toString err) \<and> \<not> retry r
      then mapiRequest e (r\<lparr>retry := True\<rparr>) st
      else (Rejected err, r, st))"
  by pat_completeness auto

termination
  apply (relation "measure (\<lambda>x. case x of
      Inl (e, r, st) \<Rightarrow> 3 * ((if path r = ''/oauth2/token'' then 0 else 2) + (if retry r then 0 else 1)) + 2
    | Inr (Inl (e, cb, st)) \<Rightarrow> 6
    | Inr (Inr (e, r, err, st)) \<Rightarrow> 3 * ((if path r = ''/oauth2/token'' then 0 else 2) + (if retry r then 0 else 1)) + 1)")
  apply (auto simp: checkAuthentication_def auth_descriptor_def)
  done

declare mapiRequest.simps [simp del] authenticate.simps [simp del]
  decideWhetherToRequeue.simps [simp del]

section \<open>What one run of the pipeline may do\<close>


text \<open>
  How a call of the callback and the promise returned to the caller go together: a result
  is delivered as \<^verbatim>\<open>callback(null, res)\<close>, and the promise resolves with it, or rejects
  with what the callback threw; an error is delivered as \<^verbatim>\<open>callback(err)\<close>, and the
  promise stays unsettled.
\<close>

definition delivery_of :: "callback_call \<Rightarrow> outcome \<Rightarrow> bool" where
  "delivery_of c p =
     ((\<exists>res. c = Callback None res \<and> (p = Resolved res \<or> (\<exists>ex. p = Rejected ex)))
      \<or> (\<exists>err. c = Callback (Some err) VUndefined \<and> p = Pending))"

text \<open>
  The effect of a pipeline function on the callback of its descriptor: either no call is
  made, the mark \<^verbatim>\<open>callbackExecuted\<close> is as before and the promise is settled, or the
  callback had not been called, is called once, and is marked.
\<close>

definition delivery_step :: "descriptor \<Rightarrow> client \<Rightarrow> outcome \<times> descriptor \<times> client \<Rightarrow> bool" where
  "delivery_step r st res =
     (case res of (p, r', st') \<Rightarrow>
        callback r' = callback r \<and>
        ((delivered st' = delivered st \<and> callbackExecuted r' = callbackExecuted r \<and> p \<noteq> Pending)
         \<or> (callback r \<noteq> None \<and> \<not> callbackExecuted r \<and> callbackExecuted r'
             \<and> (\<exists>c. delivered st' = delivered st @ [c] \<and> delivery_of c p))))"


section \<open>Sample collaborators\<close>

text \<open>
  Concrete collaborators on which the pipeline can be run: a transport that answers the
  n-th exchange with the n-th entry of a script, a \<^verbatim>\<open>JSON.parse\<close> restricted to a few
  documents, a disk that accepts every write, a client that has not authenticated yet,
  and the descriptor that \<^verbatim>\<open>getCampaignsByAdvertiser('7', cb)\<close> builds.
\<close>

definition scripted :: "transport_result list \<Rightarrow> transport_request list \<Rightarrow> transport_request \<Rightarrow> transport_result" where
  "scripted script history q =
     (if length history < length script then script ! length history
      else Failure (JsError ''Error'' ''socket hang up''))"

definition sample_parse :: \<open>string \<Rightarrow> jserror + jsval\<close> where
  \<open>sample_parse s =
     (if s = ''{"access_token":"abc"}'' then Inr (VObj [(''access_token'', VStr ''abc'')])
      else if s = ''{}'' then Inr (VObj [])
      else if s = ''null'' then Inr VNull
      else if s = ''[1]'' then Inr (VArr [VNum 1])
      else Inl (JsError ''SyntaxError'' ''Unexpected token''))\<close>

definition sample_env :: "transport_result list \<Rightarrow> env" where
  "sample_env script =
     \<lparr>transport = scripted script, json_parse = sample_parse, write_error = (\<lambda>p. None),
      encodeURIComponent = (\<lambda>s. s), client_id = ''id'', client_secret = ''secret'',
      endpoint = ''''\<rparr>"

definition new_client :: client where
  "new_client = \<lparr>token = VStr '''', files = Map.empty, calls = [], delivered = []\<rparr>"

definition getCampaignsByAdvertiser7 :: "(callback_call \<Rightarrow> jserror option) option \<Rightarrow> descriptor" where
  "getCampaignsByAdvertiser7 cb =
     \<lparr>method_name = GET, path = ''/v1/advertisers/7/campaigns'', query = VUndefined, body = None,
      handler = ProcessJSON, callback = cb, retry = False, callbackExecuted = False\<rparr>"

definition sample_stringify :: \<open>jsval \<Rightarrow> string\<close> where
  \<open>sample_stringify v =
     (if v = VObj [(''access_token'', VStr ''abc'')] then ''{"access_token":"abc"}''
      else if v = VObj [] then ''{}''
      else if v = VArr [VNum 1] then ''[1]''
      else ''null'')\<close>

text \<open>
  Two scripts for a client whose token has expired: the request is answered with 401 on
  every attempt (a fourth answer is there, and is never asked for), and the request is
  answered with 401 once and succeeds after the new authentication.
\<close>

definition twice_401 :: \<open>transport_result list\<close> where
  \<open>twice_401 = [Response 401 ''expired'', Response 200 ''{"access_token":"abc"}'',
                 Response 401 ''expired'', Response 200 ''[1]'']\<close>

definition once_401 :: \<open>transport_result list\<close> where
  \<open>once_401 = [Response 401 ''expired'', Response 200 ''{"access_token":"abc"}'',
                Response 200 ''[1]'']\<close>

text \<open>A user callback that returns, and one that throws.\<close>

definition quiet_callback :: "callback_call \<Rightarrow> jserror option" where
  "quiet_callback c = None"

definition throwing_callback :: "callback_call \<Rightarrow> jserror option" where
  "throwing_callback c = Some (JsError ''TypeError'' ''c is not a function'')"

section \<open>Auxiliary facts\<close>

lemma settle_Pending [simp]: "settle Pending x = x" by simp

lemma trim_all_space: "\<forall>c\<in>set s. is_space c \<Longrightarrow> trim s = []"
proof -
  assume "\<forall>c\<in>set s. is_space c"
  then have "dropWhile is_space s = []" by simp
  then show ?thesis unfolding trim_def by (simp del: dropWhile_eq_Nil_conv)
qed

lemma trim_empty: "trim [] = []"
  by (simp add: trim_def)

lemma match_20x_iff:
  "match_20x s \<longleftrightarrow> (\<exists>u d v. s = u @ CHR ''2'' # CHR ''0'' # d # v \<and> is_digit d)"
proof (induction s rule: match_20x.induct)
  case (1 a b c rest)
  show ?case
  proof
    assume "match_20x (a # b # c # rest)"
    then consider "a = CHR ''2'' \<and> b = CHR ''0'' \<and> is_digit c" | "match_20x (b # c # rest)"
      by auto
    then show "\<exists>u d v. a # b # c # rest = u @ CHR ''2'' # CHR ''0'' # d # v \<and> is_digit d"
    proof cases
      case 1
      then have "a # b # c # rest = [] @ CHR ''2'' # CHR ''0'' # c # rest \<and> is_digit c" by simp
      then show ?thesis by blast
    next
      case 2
      with "1.IH" obtain u d v where "b # c # rest = u @ CHR ''2'' # CHR ''0'' # d # v" "is_digit d"
        by blast
      then have "a # b # c # rest = (a # u) @ CHR ''2'' # CHR ''0'' # d # v \<and> is_digit d" by simp
      then show ?thesis by blast
    qed
  next
    assume "\<exists>u d v. a # b # c # rest = u @ CHR ''2'' # CHR ''0'' # d # v \<and> is_digit d"
    then obtain u d v where eq: "a # b # c # rest = u @ CHR ''2'' # CHR ''0'' # d # v" and d: "is_digit d"
      by blast
    show "match_20x (a # b # c # rest)"
    proof (cases u)
      case Nil
      with eq d show ?thesis by simp
    next
      case (Cons x u')
      with eq have "b # c # rest = u' @ CHR ''2'' # CHR ''0'' # d # v" by simp
      with d "1.IH" have "match_20x (b # c # rest)" by blast
      then show ?thesis by simp
    qed
  qed
qed (auto simp: append_eq_Cons_conv)

lemma digit_char_cases:
  assumes "d < 10"
  shows "(digit_char d = CHR ''2'') = (d = 2)" and "(digit_char d = CHR ''0'') = (d = 0)"
    and "is_digit (digit_char d)"
proof -
  from assms have "d = 0 \<or> d = 1 \<or> d = 2 \<or> d = 3 \<or> d = 4 \<or> d = 5 \<or> d = 6 \<or> d = 7 \<or> d = 8 \<or> d = 9"
    by arith
  then show "(digit_char d = CHR ''2'') = (d = 2)" and "(digit_char d = CHR ''0'') = (d = 0)"
    and "is_digit (digit_char d)"
    by (auto simp: digit_char_def is_digit_def)
qed

lemma number_toString_three_digits:
  assumes "100 \<le> n" "n \<le> 999"
  shows "number_toString n = [digit_char (n div 100), digit_char (n div 10 mod 10), digit_char (n mod 10)]"
proof -
  have a: "\<not> n < 10" using assms by simp
  have b: "\<not> n div 10 < 10" using assms by simp
  have c: "n div 100 < 10" using assms by simp
  have d: "n div 10 div 10 = n div 100" by (simp add: div_mult2_eq)
  have "number_toString (n div 100) = [digit_char (n div 100)]"
    using c by (simp add: number_toString.simps [of "n div 100"])
  moreover have "number_toString (n div 10) = number_toString (n div 100) @ [digit_char (n div 10 mod 10)]"
    using b d by (simp add: number_toString.simps [of "n div 10"])
  moreover have "number_toString n = number_toString (n div 10) @ [digit_char (n mod 10)]"
    using a by (simp add: number_toString.simps [of n])
  ultimately show ?thesis by simp
qed

lemma hundreds: "(n::nat) div 100 = 2 \<and> n div 10 mod 10 = 0 \<longleftrightarrow> 200 \<le> n \<and> n \<le> 209"
proof
  assume a: "n div 100 = 2 \<and> n div 10 mod 10 = 0"
  have "n div 10 div 10 = n div 100" by (simp add: div_mult2_eq)
  with a have "n div 10 div 10 = 2" by simp
  moreover have "n div 10 = 10 * (n div 10 div 10) + n div 10 mod 10" by simp
  ultimately have "n div 10 = 20" using a by simp
  then show "200 \<le> n \<and> n \<le> 209" by arith
next
  assume "200 \<le> n \<and> n \<le> 209"
  then have "n div 10 = 20" by arith
  then have "n div 10 mod 10 = 0" "n div 10 div 10 = 2" by simp_all
  then show "n div 100 = 2 \<and> n div 10 mod 10 = 0" by (simp add: div_mult2_eq)
qed

lemma status_ok_three_digits:
  assumes "100 \<le> n" "n \<le> 999"
  shows "status_ok n \<longleftrightarrow> 200 \<le> n \<and> n \<le> 209"
proof -
  have h: "n div 100 < 10" "n div 10 mod 10 < 10" "n mod 10 < 10" using assms by simp_all
  have "status_ok n \<longleftrightarrow> n div 100 = 2 \<and> n div 10 mod 10 = 0"
    unfolding status_ok_def number_toString_three_digits [OF assms]
    using digit_char_cases [OF h(1)] digit_char_cases [OF h(2)] digit_char_cases [OF h(3)]
    by simp
  also have "\<dots> \<longleftrightarrow> 200 \<le> n \<and> n \<le> 209" by (rule hundreds)
  finally show ?thesis .
qed

lemma trim_unchanged:
  assumes "s \<noteq> []" "\<not> is_space (hd s)" "\<not> is_space (last s)"
  shows "trim s = s"
proof -
  from assms obtain c cs where s: "s = c # cs" by (cases s) auto
  with assms have a: "dropWhile is_space s = s" by simp
  from assms have "rev s \<noteq> []" "\<not> is_space (hd (rev s))" by (simp_all add: hd_rev)
  then have "dropWhile is_space (rev s) = rev s" by (cases "rev s") auto
  with a show ?thesis by (simp add: trim_def)
qed

lemma status_ok_200: "status_ok 200"
  by code_simp

lemma processAuth_malformed:
  "json_parse e body_text = Inl ex \<Longrightarrow> processAuth e status body_text st = (Rejected auth_error, st)"
  by (simp add: processAuth_def)

lemma processAuth_null:
  "json_parse e body_text = Inr VNull \<Longrightarrow> processAuth e status body_text st = (Rejected auth_error, st)"
  by (simp add: processAuth_def)

lemma processAuth_missing_field:
  "json_parse e body_text = Inr (VObj kvs) \<Longrightarrow> map_of kvs ''access_token'' = None \<Longrightarrow>
   processAuth e status body_text st = (Resolved VUndefined, st\<lparr>token := VUndefined\<rparr>)"
  by (simp add: processAuth_def)

lemma no_401_not_requeued:
  "\<not> contains_text ''401'' (toString err) \<Longrightarrow> decideWhetherToRequeue e r err st = (Rejected err, r, st)"
  by (simp add: decideWhetherToRequeue.simps)

lemma process_settles:
  assumes "\<And>b s. fst (parser b s) \<noteq> Pending"
  shows "fst (process status body_text parser st) \<noteq> Pending"
proof -
  obtain asked st' where a: "parser (trim body_text) st = (asked, st')" by (cases "parser (trim body_text) st")
  with assms [of "trim body_text" st] have "asked \<noteq> Pending" by simp
  with a show ?thesis by (cases asked) (simp_all add: process_def)
qed

lemma process_delivered:
  assumes "\<And>b s. delivered (snd (parser b s)) = delivered s"
  shows "delivered (snd (process status body_text parser st)) = delivered st"
  using assms [of "trim body_text" st] by (auto simp: process_def split: prod.splits)

lemma run_handler_settles: "fst (run_handler e h status body_text st) \<noteq> Pending"
proof (cases h)
  case ProcessAuth
  then show ?thesis
    by (simp add: run_handler_def processAuth_def split: sum.splits option.splits)
next
  case ProcessJSON
  then show ?thesis
    by (simp add: run_handler_def processJSON_def process_settles parseJSON_def split: sum.splits)
next
  case (ProcessFile filepath)
  then show ?thesis
    by (simp add: run_handler_def processFile_def process_settles saveToFile_def split: option.splits)
next
  case ProcessResponse
  then show ?thesis
    by (simp add: run_handler_def processResponse_def process_settles parseResponse_def)
qed

lemma run_handler_delivered: "delivered (snd (run_handler e h status body_text st)) = delivered st"
proof (cases h)
  case ProcessAuth
  then show ?thesis
    by (simp add: run_handler_def processAuth_def split: sum.splits option.splits)
next
  case ProcessJSON
  then show ?thesis
    by (simp add: run_handler_def processJSON_def process_delivered parseJSON_def split: sum.splits)
next
  case (ProcessFile filepath)
  then show ?thesis
    by (simp add: run_handler_def processFile_def process_delivered saveToFile_def split: option.splits)
next
  case ProcessResponse
  then show ?thesis
    by (simp add: run_handler_def processResponse_def process_delivered parseResponse_def)
qed

lemma executeRequest_settles: "fst (executeRequest e r st) \<noteq> Pending"
  by (simp add: executeRequest_def Let_def run_handler_settles split: transport_result.splits)

lemma executeRequest_delivered: "delivered (snd (executeRequest e r st)) = delivered st"
  by (simp add: executeRequest_def Let_def run_handler_delivered split: transport_result.splits)

lemma complete_idle:
  "callback r = None \<or> callbackExecuted r \<or> p = Pending \<Longrightarrow> complete r p st = (p, r, st)"
  by (cases p) (auto simp: complete_def resolveRequest_def rejectRequest_def)

lemma complete_fire_resolved:
  assumes "callback r = Some cb" "\<not> callbackExecuted r"
  shows "complete r (Resolved res) st =
           (case cb (Callback None res) of None \<Rightarrow> Resolved res | Some ex \<Rightarrow> Rejected ex,
            r\<lparr>callbackExecuted := True\<rparr>,
            st\<lparr>delivered := delivered st @ [Callback None res]\<rparr>)"
proof (cases "cb (Callback None res)")
  case None
  with assms show ?thesis
    by (simp add: complete_def resolveRequest_def invoke_def)
next
  case (Some ex)
  with assms show ?thesis
    by (simp add: complete_def resolveRequest_def rejectRequest_def invoke_def)
qed

lemma complete_fire_rejected:
  assumes "callback r \<noteq> None" "\<not> callbackExecuted r"
  shows "complete r (Rejected err) st =
           (Pending, r\<lparr>callbackExecuted := True\<rparr>,
            st\<lparr>delivered := delivered st @ [Callback (Some err) VUndefined]\<rparr>)"
  using assms by (simp add: complete_def rejectRequest_def invoke_def)

lemma delivery_invariant:
  "delivery_step r st (mapiRequest e r st)
     \<and> (callback r \<noteq> None \<longrightarrow> callbackExecuted (fst (snd (mapiRequest e r st))))"
  "cb = None \<longrightarrow> delivered (snd (authenticate e cb st)) = delivered st
     \<and> fst (authenticate e cb st) \<noteq> Pending"
  "delivery_step r st (decideWhetherToRequeue e r err st)"
proof (induction e r st and e cb st and e r err st
    rule: mapiRequest_authenticate_decideWhetherToRequeue.induct)
  case (1 e r st)
  obtain p1 st1 where a: "(if checkAuthentication r st then (Resolved VUndefined, st)
                       else authenticate e None st) = (p1, st1)"
    by (cases "if checkAuthentication r st then (Resolved VUndefined, st)
                       else authenticate e None st")
  obtain p2 st2 where b: "(case p1 of Resolved v \<Rightarrow> executeRequest e r st1 | other \<Rightarrow> (other, st1)) = (p2, st2)"
    by (cases "case p1 of Resolved v \<Rightarrow> executeRequest e r st1 | other \<Rightarrow> (other, st1)")
  obtain p3 r3 st3 where c: "(case p2 of Rejected err \<Rightarrow> decideWhetherToRequeue e r err st2
                                    | other \<Rightarrow> (other, r, st2)) = (p3, r3, st3)"
    by (cases "case p2 of Rejected err \<Rightarrow> decideWhetherToRequeue e r err st2
                                    | other \<Rightarrow> (other, r, st2)")
  have m: "mapiRequest e r st = complete r3 p3 st3"
    by (simp add: mapiRequest.simps [of e r st] a b c)
  have a': "delivered st1 = delivered st \<and> p1 \<noteq> Pending"
  proof (cases "checkAuthentication r st")
    case True
    with a show ?thesis by auto
  next
    case False
    with "1.IH"(1) a show ?thesis by simp
  qed
  have b': "delivered st2 = delivered st \<and> p2 \<noteq> Pending"
  proof (cases p1)
    case (Resolved v)
    with b have "executeRequest e r st1 = (p2, st2)" by simp
    with executeRequest_settles [of e r st1] executeRequest_delivered [of e r st1] a'
    show ?thesis by simp
  next
    case (Rejected x)
    with a' b show ?thesis by auto
  next
    case Pending
    with a' show ?thesis by simp
  qed
  have c': "delivery_step r st2 (p3, r3, st3)"
  proof (cases p2)
    case (Resolved v)
    with c show ?thesis by (auto simp: delivery_step_def)
  next
    case (Rejected err)
    with c have "decideWhetherToRequeue e r err st2 = (p3, r3, st3)" by simp
    with "1.IH"(2) [OF refl a [symmetric] refl b [symmetric] Rejected] show ?thesis by simp
  next
    case Pending
    with b' show ?thesis by simp
  qed
  show ?case
  proof (cases "callback r3 \<noteq> None \<and> \<not> callbackExecuted r3 \<and> p3 \<noteq> Pending")
    case True
    then have "\<exists>p' c. complete r3 p3 st3 = (p', r3\<lparr>callbackExecuted := True\<rparr>, st3\<lparr>delivered := delivered st3 @ [c]\<rparr>)
        \<and> delivery_of c p'"
    proof (cases p3)
      case (Resolved res)
      from True obtain cb where cb: "callback r3 = Some cb" by auto
      have "delivery_of (Callback None res)
              (case cb (Callback None res) of None \<Rightarrow> Resolved res | Some ex \<Rightarrow> Rejected ex)"
        by (simp add: delivery_of_def split: option.splits)
      with complete_fire_resolved [OF cb, of res st3] True Resolved show ?thesis by blast
    next
      case (Rejected err)
      have "delivery_of (Callback (Some err) VUndefined) Pending" by (simp add: delivery_of_def)
      with complete_fire_rejected [of r3 err st3] True Rejected show ?thesis by blast
    next
      case Pending
      with True show ?thesis by simp
    qed
    then obtain p' c where
      "complete r3 p3 st3 = (p', r3\<lparr>callbackExecuted := True\<rparr>, st3\<lparr>delivered := delivered st3 @ [c]\<rparr>)"
      "delivery_of c p'"
      by blast
    with m c' b' True show ?thesis by (auto simp: delivery_step_def)
  next
    case False
    then have "callback r3 = None \<or> callbackExecuted r3 \<or> p3 = Pending" by auto
    then have "complete r3 p3 st3 = (p3, r3, st3)" by (rule complete_idle)
    with m c' b' False show ?thesis by (auto simp: delivery_step_def)
  qed
next
  case (2 e cb st)
  show ?case
  proof
    assume "cb = None"
    with "2.IH" show "delivered (snd (authenticate e cb st)) = delivered st
     \<and> fst (authenticate e cb st) \<noteq> Pending"
      by (auto simp: authenticate.simps delivery_step_def auth_descriptor_def
          split: prod.splits)
  qed
next
  case (3 e r err st)
  show ?case
  proof (cases "contains_text ''401'' (toString err) \<and> \<not> retry r")
    case True
    with "3.IH" show ?thesis
      by (auto simp: decideWhetherToRequeue.simps [of e r err st] delivery_step_def split: prod.splits)
  next
    case False
    then show ?thesis
      by (auto simp: decideWhetherToRequeue.simps [of e r err st] delivery_step_def)
  qed
qed









section \<open>The credential check\<close>

text \<open>
  C4. The credential check decides from the token, the retry mark and the path alone: a
  request goes on without authenticating exactly when the token is truthy and the
  descriptor is not marked retried, or the path is \<^verbatim>\<open>/oauth2/token\<close>. For a token that is
  a string, truthy means non-empty. A request to the authentication path is allowed with
  the empty token.
\<close>

theorem checkAuthentication_allowed:
  "(checkAuthentication r st \<longleftrightarrow> (truthy (token st) \<and> \<not> retry r) \<or> path r = ''/oauth2/token'')
   \<and> (token st = VStr s \<longrightarrow>
        (checkAuthentication r st \<longleftrightarrow> (s \<noteq> [] \<and> \<not> retry r) \<or> path r = ''/oauth2/token''))
   \<and> (path r = ''/oauth2/token'' \<longrightarrow> checkAuthentication r (st\<lparr>token := VStr ''''\<rparr>))"
  by (auto simp: checkAuthentication_def)

theorem checkAuthentication_allowed_witness:
  "token new_client = VStr '''' \<and> path (auth_descriptor (sample_env []) None) = ''/oauth2/token''
   \<and> checkAuthentication (auth_descriptor (sample_env []) None) new_client
   \<and> \<not> checkAuthentication (getCampaignsByAdvertiser7 None) new_client"
  using checkAuthentication_allowed [of "auth_descriptor (sample_env []) None" new_client "''''"]
    checkAuthentication_allowed [of "getCampaignsByAdvertiser7 None" new_client "''''"]
  by (simp add: new_client_def auth_descriptor_def getCampaignsByAdvertiser7_def)

section \<open>The response processor\<close>

text \<open>
  C5, as amended. A status is classified as success exactly when its decimal form contains
  the digits 2 and 0 followed by one more digit; for a status of three digits, exactly
  when it lies between 200 and 209. Every other status makes the promise of
  \<^verbatim>\<open>process\<close> reject with the error whose message carries the status and the raw body,
  whatever the parser; a status classified as success leaves the outcome to the parser,
  which receives the trimmed body.
\<close>

theorem status_classification:
  "(status_ok status \<longleftrightarrow>
      (\<exists>u d v. number_toString status = u @ CHR ''2'' # CHR ''0'' # d # v \<and> is_digit d))
   \<and> (100 \<le> status \<and> status \<le> 999 \<longrightarrow> (status_ok status \<longleftrightarrow> 200 \<le> status \<and> status \<le> 209))
   \<and> (\<not> status_ok status \<longrightarrow>
        fst (process status body_text parser st) =
          Rejected (Error (''Bad Response From API: Status Code '' @ number_toString status
                           @ '' | '' @ body_text)))
   \<and> (status_ok status \<longrightarrow>
        fst (process status body_text parser st) = fst (parser (trim body_text) st))"
proof (intro conjI impI)
  show "status_ok status \<longleftrightarrow>
      (\<exists>u d v. number_toString status = u @ CHR ''2'' # CHR ''0'' # d # v \<and> is_digit d)"
    unfolding status_ok_def by (rule match_20x_iff)
next
  assume "100 \<le> status \<and> status \<le> 999"
  then show "status_ok status \<longleftrightarrow> 200 \<le> status \<and> status \<le> 209"
    using status_ok_three_digits by blast
next
  assume "\<not> status_ok status"
  then show "fst (process status body_text parser st) =
          Rejected (Error (''Bad Response From API: Status Code '' @ number_toString status
                           @ '' | '' @ body_text))"
    by (simp add: process_def bad_response_def split: prod.splits)
next
  assume "status_ok status"
  then show "fst (process status body_text parser st) = fst (parser (trim body_text) st)"
    by (simp add: process_def split: prod.splits)
qed

theorem status_classification_witness:
  "\<not> status_ok 299 \<and> \<not> status_ok 401 \<and> \<not> status_ok 503 \<and> \<not> status_ok 150 \<and> status_ok 204
   \<and> fst (process 401 ''denied'' parseResponse new_client) =
        Rejected (Error ''Bad Response From API: Status Code 401 | denied'')
   \<and> fst (process 204 '' done '' parseResponse new_client) = Resolved (VStr ''done'')"
proof -
  have n: "number_toString 401 = ''401''" by code_simp
  have t: "trim '' done '' = ''done''" by code_simp
  have a: "\<not> status_ok 299"
    using status_classification [of 299, THEN conjunct2, THEN conjunct1] by simp
  have b: "\<not> status_ok 401"
    using status_classification [of 401, THEN conjunct2, THEN conjunct1] by simp
  have c: "\<not> status_ok 503"
    using status_classification [of 503, THEN conjunct2, THEN conjunct1] by simp
  have d: "\<not> status_ok 150"
    using status_classification [of 150, THEN conjunct2, THEN conjunct1] by simp
  have e: "status_ok 204"
    using status_classification [of 204, THEN conjunct2, THEN conjunct1] by simp
  have f: "fst (process 401 ''denied'' parseResponse new_client) =
        Rejected (Error ''Bad Response From API: Status Code 401 | denied'')"
    using status_classification [of 401 "''denied''" parseResponse new_client,
        THEN conjunct2, THEN conjunct2, THEN conjunct1] b
    by (simp add: n)
  have g: "fst (process 204 '' done '' parseResponse new_client) = Resolved (VStr ''done'')"
    using status_classification [of 204 "'' done ''" parseResponse new_client,
        THEN conjunct2, THEN conjunct2, THEN conjunct2] e
    by (simp add: t parseResponse_def)
  from a b c d e f g show ?thesis by blast
qed

text \<open>
  C5 as stated fails: 299 is a three-digit status whose first digit is 2, and
  \<^verbatim>\<open>process\<close> rejects it.
\<close>

theorem status_299_counterexample:
  "number_toString 299 = ''299'' \<and> \<not> status_ok 299
   \<and> fst (processResponse 299 ''ok'' new_client) =
        Rejected (Error ''Bad Response From API: Status Code 299 | ok'')"
  by code_simp

text \<open>
  C8. Let \<open>stringify\<close> be the serialisation of payloads. For a payload \<open>P\<close> that
  \<^verbatim>\<open>JSON.parse\<close> reads back from its serialisation, the serialisation being non-empty and
  free of white space at both ends (as the output of \<^verbatim>\<open>JSON.stringify\<close> is), a response
  with status 200 and that body resolves in JSON mode to \<open>P\<close>.
\<close>

theorem json_round_trip:
  assumes "json_parse e (stringify P) = Inr P"
    and "stringify P \<noteq> []"
    and "\<not> is_space (hd (stringify P))"
    and "\<not> is_space (last (stringify P))"
  shows "processJSON e 200 (stringify P) st = (Resolved P, st)"
  using assms status_ok_200
  by (simp add: processJSON_def process_def trim_unchanged parseJSON_def)

theorem json_round_trip_witness:
  \<open>json_parse (sample_env []) (sample_stringify (VObj [(''access_token'', VStr ''abc'')]))
      = Inr (VObj [(''access_token'', VStr ''abc'')])
   \<and> sample_stringify (VObj [(''access_token'', VStr ''abc'')]) = ''{"access_token":"abc"}''
   \<and> processJSON (sample_env []) 200 ''{"access_token":"abc"}'' new_client
      = (Resolved (VObj [(''access_token'', VStr ''abc'')]), new_client)\<close>
proof -
  let ?P = "VObj [(''access_token'', VStr ''abc'')]"
  have s: \<open>sample_stringify ?P = ''{"access_token":"abc"}''\<close> by (simp add: sample_stringify_def)
  have a: "json_parse (sample_env []) (sample_stringify ?P) = Inr ?P"
    by (simp add: s sample_env_def sample_parse_def)
  have b: "sample_stringify ?P \<noteq> []" by (simp add: s)
  have c: "\<not> is_space (hd (sample_stringify ?P))" by (simp add: s is_space_def)
  have d: "\<not> is_space (last (sample_stringify ?P))" by (simp add: s is_space_def)
  from json_round_trip [of "sample_env []" sample_stringify ?P new_client, OF a b c d] a s
  show ?thesis by simp
qed

text \<open>
  C9, as amended. A response whose body is empty, or consists of white space only,
  resolves to the boolean \<^verbatim>\<open>true\<close> in JSON mode and in text mode when its status is
  classified as success by \<^verbatim>\<open>process\<close>, that is, when the decimal form of the status
  matches \<^verbatim>\<open>/20[0-9]/\<close>: for a status of three digits, from 200 to 209. With any
  other status the same response is rejected as a bad response in both modes.
\<close>

theorem empty_body_true:
  assumes "\<forall>c\<in>set body_text. is_space c"
  shows "(status_ok status \<longrightarrow>
            processJSON e status body_text st = (Resolved (VBool True), st)
            \<and> processResponse status body_text st = (Resolved (VBool True), st))
     \<and> (200 \<le> status \<and> status \<le> 209 \<longrightarrow>
            processJSON e status body_text st = (Resolved (VBool True), st)
            \<and> processResponse status body_text st = (Resolved (VBool True), st))
     \<and> (\<not> status_ok status \<longrightarrow>
            processJSON e status body_text st = (Rejected (bad_response status body_text), st)
            \<and> processResponse status body_text st = (Rejected (bad_response status body_text), st))"
proof -
  from assms have t: "trim body_text = []" by (rule trim_all_space)
  have ok: "processJSON e status body_text st = (Resolved (VBool True), st)
            \<and> processResponse status body_text st = (Resolved (VBool True), st)"
    if "status_ok status"
    using that t
    by (simp add: processJSON_def processResponse_def process_def parseJSON_def parseResponse_def)
  have range: "status_ok status" if "200 \<le> status \<and> status \<le> 209"
    using that status_ok_three_digits [of status] by simp
  have bad: "processJSON e status body_text st = (Rejected (bad_response status body_text), st)
            \<and> processResponse status body_text st = (Rejected (bad_response status body_text), st)"
    if "\<not> status_ok status"
    using that t
    by (simp add: processJSON_def processResponse_def process_def parseJSON_def parseResponse_def)
  from ok range bad show ?thesis by blast
qed

theorem empty_body_true_witness:
  "status_ok 204 \<and> status_ok 200 \<and> is_space CHR '' ''
   \<and> processJSON (sample_env []) 204 '''' new_client = (Resolved (VBool True), new_client)
   \<and> processResponse 200 '''' new_client = (Resolved (VBool True), new_client)
   \<and> processJSON (sample_env []) 200 '' '' new_client = (Resolved (VBool True), new_client)
   \<and> processResponse 209 '' '' new_client = (Resolved (VBool True), new_client)
   \<and> processJSON (sample_env []) 503 '''' new_client
        = (Rejected (Error ''Bad Response From API: Status Code 503 | ''), new_client)"
proof -
  have a: "status_ok 204" by code_simp
  have b: "status_ok 200" by code_simp
  have n: "\<not> status_ok 503" by code_simp
  have m: "bad_response 503 '''' = Error ''Bad Response From API: Status Code 503 | ''"
    by code_simp
  have c: "\<forall>c\<in>set ''''. is_space c" by simp
  have d: "\<forall>c\<in>set '' ''. is_space c" by (simp add: is_space_def)
  have s: "is_space CHR '' ''" by (simp add: is_space_def)
  have r: "(200::nat) \<le> 209 \<and> (209::nat) \<le> 209" by simp
  from empty_body_true [OF c, of 204 "sample_env []" new_client, THEN conjunct1] a
  have w1: "processJSON (sample_env []) 204 '''' new_client = (Resolved (VBool True), new_client)"
    by simp
  from empty_body_true [OF c, of 200 "sample_env []" new_client, THEN conjunct1] b
  have w2: "processResponse 200 '''' new_client = (Resolved (VBool True), new_client)"
    by simp
  from empty_body_true [OF d, of 200 "sample_env []" new_client, THEN conjunct1] b
  have w3: "processJSON (sample_env []) 200 '' '' new_client = (Resolved (VBool True), new_client)"
    by simp
  from empty_body_true [OF d, of 209 "sample_env []" new_client, THEN conjunct2, THEN conjunct1] r
  have w4: "processResponse 209 '' '' new_client = (Resolved (VBool True), new_client)"
    by blast
  from empty_body_true [OF c, of 503 "sample_env []" new_client, THEN conjunct2, THEN conjunct2] n
  have w5: "processJSON (sample_env []) 503 '''' new_client
        = (Rejected (Error ''Bad Response From API: Status Code 503 | ''), new_client)"
    by (simp add: m)
  from a b s w1 w2 w3 w4 w5 show ?thesis by blast
qed

text \<open>
  C9 as stated fails: 226 is a status of the class 2xx, and a response with that status
  and an empty body is rejected in text mode and in JSON mode instead of resolving to
  \<^verbatim>\<open>true\<close>.
\<close>

theorem empty_body_226_counterexample:
  "number_toString 226 = ''226''
   \<and> fst (processResponse 226 '''' new_client)
        = Rejected (Error ''Bad Response From API: Status Code 226 | '')
   \<and> fst (processJSON (sample_env []) 226 '''' new_client)
        = Rejected (Error ''Bad Response From API: Status Code 226 | '')"
  by code_simp

text \<open>
  C10. \<^verbatim>\<open>process\<close> calls the parser on the trimmed body whatever the status: the
  world after \<^verbatim>\<open>process\<close> is the world the parser leaves, while the outcome of a
  status that is not classified as success is the rejection. In file mode the trimmed
  body is on disk although the operation reports the bad response.
\<close>

theorem process_runs_parser_after_reject:
  "process status body_text parser st =
     (if status_ok status then fst (parser (trim body_text) st)
      else Rejected (bad_response status body_text),
      snd (parser (trim body_text) st))
   \<and> (\<not> status_ok status \<and> write_error e filepath = None \<longrightarrow>
        processFile e filepath status body_text st =
          (Rejected (bad_response status body_text),
           st\<lparr>files := (files st)(filepath \<mapsto> trim body_text)\<rparr>))"
  by (simp add: process_def processFile_def saveToFile_def split: prod.splits)

theorem process_runs_parser_after_reject_witness:
  "\<not> status_ok 500 \<and> write_error (sample_env []) ''out.csv'' = None
   \<and> processFile (sample_env []) ''out.csv'' 500 '' a;b '' new_client =
       (Rejected (Error ''Bad Response From API: Status Code 500 |  a;b ''),
        new_client\<lparr>files := [''out.csv'' \<mapsto> ''a;b'']\<rparr>)"
proof -
  have a: "\<not> status_ok 500" by code_simp
  have b: "write_error (sample_env []) ''out.csv'' = None" by (simp add: sample_env_def)
  have c: "trim '' a;b '' = ''a;b''" by code_simp
  have d: "bad_response 500 '' a;b '' = Error ''Bad Response From API: Status Code 500 |  a;b ''"
    by code_simp
  from process_runs_parser_after_reject [of 500 "'' a;b ''" _ new_client "sample_env []" "''out.csv''"] a b
  show ?thesis by (simp add: c d new_client_def)
qed

section \<open>The authentication response\<close>

text \<open>
  C7, at the input where the code departs from it. The body \<^verbatim>\<open>{}\<close> parses and has no
  \<^verbatim>\<open>access_token\<close>: \<^verbatim>\<open>processAuth\<close> resolves with \<^verbatim>\<open>undefined\<close> and stores
  \<^verbatim>\<open>undefined\<close> as the token, where a malformed body is rejected with the
  authentication error (\<open>processAuth_malformed\<close>).
\<close>

theorem processAuth_empty_object:
  "processAuth (sample_env []) 200 ''{}'' new_client
     = (Resolved VUndefined, new_client\<lparr>token := VUndefined\<rparr>)"
  by (simp add: processAuth_def sample_env_def sample_parse_def)

section \<open>Completion\<close>

text \<open>
  C2. Over a whole run of \<^verbatim>\<open>mapiRequest\<close>, requeued request included, a callback that
  has not been called yet is called exactly once and marked as called; what it receives
  and the state of the returned promise go together as \<open>delivery_of\<close> says. A callback
  already marked is not called again, and a completion on a marked descriptor changes
  nothing.
\<close>

theorem callback_exactly_once:
  assumes "mapiRequest e r st = (p, r', st')"
  shows "(callback r \<noteq> None \<and> \<not> callbackExecuted r \<longrightarrow>
            callbackExecuted r' \<and> (\<exists>c. delivered st' = delivered st @ [c] \<and> delivery_of c p))
     \<and> (callback r \<noteq> None \<and> callbackExecuted r \<longrightarrow>
            callbackExecuted r' \<and> delivered st' = delivered st)
     \<and> (callbackExecuted r \<longrightarrow> complete r p0 st0 = (p0, r, st0))"
proof -
  from delivery_invariant(1) [of r st e] assms
  have i: "delivery_step r st (p, r', st')" and j: "callback r \<noteq> None \<longrightarrow> callbackExecuted r'"
    by simp_all
  have "callback r \<noteq> None \<and> \<not> callbackExecuted r \<longrightarrow>
            callbackExecuted r' \<and> (\<exists>c. delivered st' = delivered st @ [c] \<and> delivery_of c p)"
    using i j by (auto simp: delivery_step_def)
  moreover have "callback r \<noteq> None \<and> callbackExecuted r \<longrightarrow>
            callbackExecuted r' \<and> delivered st' = delivered st"
    using i j by (auto simp: delivery_step_def)
  moreover have "callbackExecuted r \<longrightarrow> complete r p0 st0 = (p0, r, st0)"
    by (simp add: complete_idle)
  ultimately show ?thesis by blast
qed

theorem callback_exactly_once_witness:
  "callback (getCampaignsByAdvertiser7 (Some quiet_callback)) \<noteq> None
   \<and> \<not> callbackExecuted (getCampaignsByAdvertiser7 (Some quiet_callback))
   \<and> callbackExecuted (fst (snd (mapiRequest (sample_env once_401)
        (getCampaignsByAdvertiser7 (Some quiet_callback)) (new_client\<lparr>token := VStr ''old''\<rparr>))))
   \<and> delivered (snd (snd (mapiRequest (sample_env once_401)
        (getCampaignsByAdvertiser7 (Some quiet_callback)) (new_client\<lparr>token := VStr ''old''\<rparr>))))
      = [Callback None (VArr [VNum 1])]
   \<and> delivered (snd (snd (mapiRequest (sample_env twice_401)
        (getCampaignsByAdvertiser7 (Some throwing_callback)) (new_client\<lparr>token := VStr ''old''\<rparr>))))
      = [Callback (Some (Error ''Bad Response From API: Status Code 401 | expired'')) VUndefined]"
proof -
  let ?E = "sample_env once_401" and ?R = "getCampaignsByAdvertiser7 (Some quiet_callback)"
    and ?S = "new_client\<lparr>token := VStr ''old''\<rparr>"
  let ?X = "mapiRequest ?E ?R ?S"
  have x: "?X = (fst ?X, fst (snd ?X), snd (snd ?X))" by simp
  have h: "callback ?R \<noteq> None" "\<not> callbackExecuted ?R"
    by (simp_all add: getCampaignsByAdvertiser7_def)
  from callback_exactly_once [OF x, THEN conjunct1] h
  have a: "callbackExecuted (fst (snd ?X))" by simp
  have b: "delivered (snd (snd ?X)) = [Callback None (VArr [VNum 1])]" by code_simp
  have c: "delivered (snd (snd (mapiRequest (sample_env twice_401)
        (getCampaignsByAdvertiser7 (Some throwing_callback)) (new_client\<lparr>token := VStr ''old''\<rparr>))))
      = [Callback (Some (Error ''Bad Response From API: Status Code 401 | expired'')) VUndefined]"
    by code_simp
  from h a b c show ?thesis by simp
qed

text \<open>
  C3, as amended. On failure, a descriptor whose callback has not been called yet gets
  one call of the callback with the error as its only argument, and the promise returned
  to the caller is left unsettled; the promise is rejected with the error when there is
  no callback, or when the callback has been called before.
\<close>

theorem rejectRequest_delivery:
  "(callback r \<noteq> None \<and> \<not> callbackExecuted r \<longrightarrow>
      rejectRequest r err st =
        (Pending, r\<lparr>callbackExecuted := True\<rparr>,
         st\<lparr>delivered := delivered st @ [Callback (Some err) VUndefined]\<rparr>))
   \<and> (callback r = None \<or> callbackExecuted r \<longrightarrow> rejectRequest r err st = (Rejected err, r, st))"
  by (auto simp: rejectRequest_def invoke_def)

theorem rejectRequest_delivery_witness:
  "callback (getCampaignsByAdvertiser7 (Some quiet_callback)) \<noteq> None
   \<and> \<not> callbackExecuted (getCampaignsByAdvertiser7 (Some quiet_callback))
   \<and> rejectRequest (getCampaignsByAdvertiser7 (Some quiet_callback)) (Error ''timeout'') new_client
       = (Pending, (getCampaignsByAdvertiser7 (Some quiet_callback))\<lparr>callbackExecuted := True\<rparr>,
          new_client\<lparr>delivered := [Callback (Some (Error ''timeout'')) VUndefined]\<rparr>)
   \<and> callback (getCampaignsByAdvertiser7 None) = None
   \<and> rejectRequest (getCampaignsByAdvertiser7 None) (Error ''timeout'') new_client
       = (Rejected (Error ''timeout''), getCampaignsByAdvertiser7 None, new_client)"
  using rejectRequest_delivery [of "getCampaignsByAdvertiser7 (Some quiet_callback)"
      "Error ''timeout''" new_client]
    rejectRequest_delivery [of "getCampaignsByAdvertiser7 None" "Error ''timeout''" new_client]
  by (simp add: getCampaignsByAdvertiser7_def new_client_def)

text \<open>
  C3 as stated fails: with a callback and a 503 response, the callback receives the error
  and the promise returned by \<^verbatim>\<open>mapiRequest\<close> is not rejected; it never settles.
\<close>

theorem callback_failure_counterexample:
  "fst (mapiRequest (sample_env [Response 503 ''down''])
          (getCampaignsByAdvertiser7 (Some quiet_callback)) (new_client\<lparr>token := VStr ''abc''\<rparr>))
     = Pending
   \<and> delivered (snd (snd (mapiRequest (sample_env [Response 503 ''down''])
          (getCampaignsByAdvertiser7 (Some quiet_callback)) (new_client\<lparr>token := VStr ''abc''\<rparr>))))
     = [Callback (Some (Error ''Bad Response From API: Status Code 503 | down'')) VUndefined]"
  by code_simp

section \<open>Retry\<close>



text \<open>
  C6, at the input where the code departs from it. The first exchange fails with status
  500 and a body that contains the characters 401: the failure is not surfaced, the
  pipeline authenticates and executes the request a second time. A failure whose text
  does not contain 401 is surfaced at once (\<open>no_401_not_requeued\<close>).
\<close>

theorem failure_500_requeued:
  \<open>map req_path (calls (snd (snd (mapiRequest
       (sample_env [Response 500 ''job 401 failed'', Response 200 ''{"access_token":"abc"}'',
                    Response 200 ''[1]''])
       (getCampaignsByAdvertiser7 None) (new_client\<lparr>token := VStr ''old''\<rparr>)))))
     = [''/v1/advertisers/7/campaigns'', ''/oauth2/token'', ''/v1/advertisers/7/campaigns'']
   \<and> fst (mapiRequest
       (sample_env [Response 500 ''job 401 failed'', Response 200 ''{"access_token":"abc"}'',
                    Response 200 ''[1]''])
       (getCampaignsByAdvertiser7 None) (new_client\<lparr>token := VStr ''old''\<rparr>))
     = Resolved (VArr [VNum 1])\<close>
  by code_simp

end
